theory Spec2Isabelle
  imports Main "HOL-Library.Word"
begin

unbundle bit_operations_syntax

section \<open>AtlasCryptoKit: the wallet tool's pure core\<close>

text \<open>
  The embedding follows \<^verbatim>\<open>src/AtlasCryptoKit.py\<close>. Python exceptions are values of
  \<open>error\<close>; a function that can raise returns \<open>error + 'a\<close> with \<open>Inl\<close> for the
  exception. A text is the list of bytes of its UTF-8 encoding (\<open>string\<close>).
\<close>

datatype error =
    InvalidOperation  \<comment> \<open>decimal.InvalidOperation: a signalling NaN operand, 0 * Infinity\<close>
  | Overflow  \<comment> \<open>decimal.Overflow: a product above Emax\<close>
  | ValueError  \<comment> \<open>int() of a NaN\<close>
  | OverflowError  \<comment> \<open>int() of an infinity\<close>
  | NodeError string  \<comment> \<open>whatever a call on the w3 object raises\<close>

subsection \<open>decimal.Decimal under the default context\<close>

text \<open>
  The source never touches the decimal context, so every operation runs under the default
  one: precision 28, ROUND_HALF_EVEN, Emax 999999, Emin -999999, clamp 0, and the traps
  InvalidOperation, DivisionByZero and Overflow. A finite Decimal is a sign
  (\<open>True\<close> is negative), a coefficient and an exponent: its value is
  \<open>\<plusminus> coefficient * 10 ^ exponent\<close>. The sign and payload of a NaN are left out: no
  operation used here looks at them.
\<close>

datatype Decimal = Dec bool nat int | Infinity bool | QNaN | SNaN

definition prec :: nat where "prec = 28"
definition Emax :: int where "Emax = 999999"
definition Emin :: int where "Emin = - 999999"

definition Etiny :: int where "Etiny = Emin - int prec + 1"
definition Etop :: int where "Etop = Emax - int prec + 1"

text \<open>\<open>len(str(n))\<close>: the number of decimal digits of a coefficient.\<close>

fun ndigits :: "nat \<Rightarrow> nat" where
  "ndigits n = (if n < 10 then 1 else Suc (ndigits (n div 10)))"

declare ndigits.simps [simp del]

text \<open>
  Rounding a finite result to the context (\<open>Decimal._fix\<close>). A zero keeps its exponent,
  clamped to \<open>[Etiny, Emax]\<close>. Otherwise \<open>exp_min\<close> is the least exponent the result may
  have: the one that leaves \<open>prec\<close> digits, or \<open>Etiny\<close> for a subnormal. When the
  exponent is below it the last \<open>k = exp_min - e\<close> digits are dropped, half-even on the
  dropped part; a carry that makes the coefficient one digit too long drops one more digit
  (a zero). A result above \<open>Etop\<close> signals Overflow, which is trapped.
\<close>

definition Decimal_fix :: "bool \<Rightarrow> nat \<Rightarrow> int \<Rightarrow> error + Decimal" where
  "Decimal_fix s c e =
     (if c = 0 then Inr (Dec s 0 (min (max e Etiny) Emax))
      else
        let exp_min0 = int (ndigits c) + e - int prec in
        if Etop < exp_min0 then Inl Overflow
        else
          let exp_min = (if exp_min0 < Etiny then Etiny else exp_min0) in
          if e < exp_min then
            let k = nat (exp_min - e);
                q = c div 10 ^ k;
                r = c mod 10 ^ k;
                half = 5 * 10 ^ (k - 1);
                q' = (if half < r \<or> (r = half \<and> odd q) then q + 1 else q);
                long = (prec < ndigits q');
                coeff = (if long then q' div 10 else q');
                ex = (if long then exp_min + 1 else exp_min)
            in if Etop < ex then Inl Overflow else Inr (Dec s coeff ex)
          else Inr (Dec s c e))"

text \<open>
  \<open>Decimal.__mul__\<close>: NaNs first (a signalling one raises), then the infinities (times
  zero raises), then the exact product of the coefficients with the sum of the exponents,
  rounded by \<open>Decimal_fix\<close>.
\<close>

fun Decimal_mul :: "Decimal \<Rightarrow> Decimal \<Rightarrow> error + Decimal" where
  "Decimal_mul SNaN _ = Inl InvalidOperation"
| "Decimal_mul _ SNaN = Inl InvalidOperation"
| "Decimal_mul QNaN _ = Inr QNaN"
| "Decimal_mul _ QNaN = Inr QNaN"
| "Decimal_mul (Infinity s) (Infinity t) = Inr (Infinity (s \<noteq> t))"
| "Decimal_mul (Infinity s) (Dec t d f) =
     (if d = 0 then Inl InvalidOperation else Inr (Infinity (s \<noteq> t)))"
| "Decimal_mul (Dec s c e) (Infinity t) =
     (if c = 0 then Inl InvalidOperation else Inr (Infinity (s \<noteq> t)))"
| "Decimal_mul (Dec s c e) (Dec t d f) = Decimal_fix (s \<noteq> t) (c * d) (e + f)"

text \<open>\<open>Decimal(n)\<close> for a Python int: exact, whatever the context.\<close>

definition Decimal_of_int :: "int \<Rightarrow> Decimal" where
  "Decimal_of_int n = Dec (n < 0) (nat \<bar>n\<bar>) 0"

text \<open>
  \<open>Decimal.__int__\<close>: truncation towards zero; a NaN raises ValueError, an infinity
  OverflowError.
\<close>

fun int_of_Decimal :: "Decimal \<Rightarrow> error + int" where
  "int_of_Decimal (Dec s c e) =
     (let m = (if 0 \<le> e then c * 10 ^ nat e else c div 10 ^ nat (- e))
      in Inr (if s then - int m else int m))"
| "int_of_Decimal (Infinity s) = Inl OverflowError"
| "int_of_Decimal QNaN = Inl ValueError"
| "int_of_Decimal SNaN = Inl ValueError"

text \<open>The Python expression \<open>int(x * y)\<close> on two Decimals.\<close>

definition int_of_product :: "Decimal \<Rightarrow> Decimal \<Rightarrow> error + int" where
  "int_of_product x y =
     (case Decimal_mul x y of Inl err \<Rightarrow> Inl err | Inr d \<Rightarrow> int_of_Decimal d)"


subsection \<open>The node client\<close>

text \<open>
  The \<open>w3\<close> object is the external collaborator. Only the calls the builder makes are
  modelled; each one can raise.
\<close>

datatype val = PyStr string | PyInt int

type_synonym tx_dict = "string \<rightharpoonup> val"

record Web3 =
  toChecksumAddress :: "string \<Rightarrow> error + string"
  get_transaction_count :: "string \<Rightarrow> error + int"
  chain_id :: "error + int"
  gas_price :: "error + int"
  estimate_gas :: "tx_dict \<Rightarrow> error + int"

subsection \<open>The transaction builder\<close>

text \<open>Sequencing: the first call that raises ends the function with its exception.\<close>

definition and_then :: "error + 'a \<Rightarrow> ('a \<Rightarrow> error + 'b) \<Rightarrow> error + 'b" where
  "and_then m f = (case m of Inl err \<Rightarrow> Inl err | Inr x \<Rightarrow> f x)"

text \<open>
  \<open>chain_id or w3.eth.chain_id\<close> (line 158): \<open>None\<close> and 0 are both falsy, and only
  then is the node asked.
\<close>

definition chain_id_or :: "int option \<Rightarrow> Web3 \<Rightarrow> error + int" where
  "chain_id_or cid w3 =
     (case cid of None \<Rightarrow> chain_id w3
      | Some n \<Rightarrow> if n = 0 then chain_id w3 else Inr n)"

text \<open>Lines 166-169 and 177-180: the caller's gas limit, or the node's estimate.\<close>

definition gas_or_estimate :: "int option \<Rightarrow> Web3 \<Rightarrow> tx_dict \<Rightarrow> error + int" where
  "gas_or_estimate gas w3 skeleton =
     (case gas of None \<Rightarrow> estimate_gas w3 skeleton | Some g \<Rightarrow> Inr g)"

text \<open>
  \<open>build_eth_transaction\<close> (lines 140-182), in the source's order of evaluation. The
  parameter \<open>cid\<close> is the source's \<open>chain_id\<close>.
\<close>

definition build_eth_transaction ::
  "Web3 \<Rightarrow> string \<Rightarrow> string \<Rightarrow> Decimal \<Rightarrow> int option \<Rightarrow> Decimal option \<Rightarrow>
   Decimal option \<Rightarrow> Decimal option \<Rightarrow> int option \<Rightarrow> int option \<Rightarrow> error + tx_dict" where
  "build_eth_transaction w3 from_address to_address value_eth gas gas_price_gwei
       max_priority_fee_gwei max_fee_gwei nonce cid =
     and_then (toChecksumAddress w3 from_address) (\<lambda>from_checksum.
     and_then (toChecksumAddress w3 to_address) (\<lambda>to_checksum.
     and_then (case nonce of None \<Rightarrow> get_transaction_count w3 from_checksum
               | Some n \<Rightarrow> Inr n) (\<lambda>nonce'.
     and_then (int_of_product value_eth (Decimal_of_int (10 ^ 18))) (\<lambda>wei.
     and_then (chain_id_or cid w3) (\<lambda>chain.
       let tx = [''from'' \<mapsto> PyStr from_checksum, ''to'' \<mapsto> PyStr to_checksum,
                 ''value'' \<mapsto> PyInt wei, ''nonce'' \<mapsto> PyInt nonce',
                 ''chainId'' \<mapsto> PyInt chain]
       in
         if max_fee_gwei \<noteq> None \<and> max_priority_fee_gwei \<noteq> None then
           and_then (int_of_product (the max_fee_gwei) (Decimal_of_int (10 ^ 9))) (\<lambda>fee.
           and_then (int_of_product (the max_priority_fee_gwei) (Decimal_of_int (10 ^ 9)))
             (\<lambda>tip.
           let tx1 = tx(''type'' \<mapsto> PyStr ''0x2'', ''maxFeePerGas'' \<mapsto> PyInt fee,
                        ''maxPriorityFeePerGas'' \<mapsto> PyInt tip)
           in and_then (gas_or_estimate gas w3 (tx1 |` {''to'', ''value'', ''from''}))
                (\<lambda>g. Inr (tx1(''gas'' \<mapsto> PyInt g)))))
         else
           and_then (case gas_price_gwei of None \<Rightarrow> gas_price w3
                     | Some p \<Rightarrow> int_of_product p (Decimal_of_int (10 ^ 9))) (\<lambda>price.
           let tx1 = tx(''gasPrice'' \<mapsto> PyInt price)
           in and_then (gas_or_estimate gas w3
                          [''to'' \<mapsto> PyStr to_checksum, ''from'' \<mapsto> PyStr from_checksum,
                           ''value'' \<mapsto> PyInt wei])
                (\<lambda>g. Inr (tx1(''gas'' \<mapsto> PyInt g)))))))))"

text \<open>A node client for the concrete examples: it answers every call.\<close>

definition w3_demo :: Web3 where
  "w3_demo = \<lparr>toChecksumAddress = Inr, get_transaction_count = (\<lambda>_. Inr 7),
     chain_id = Inr 1, gas_price = Inr 20000000000, estimate_gas = (\<lambda>_. Inr 21000)\<rparr>"

definition demo_legacy_tx :: tx_dict where
  "demo_legacy_tx = [''from'' \<mapsto> PyStr ''0xA'', ''to'' \<mapsto> PyStr ''0xB'',
        ''value'' \<mapsto> PyInt 1500000000000000000, ''nonce'' \<mapsto> PyInt 7,
        ''chainId'' \<mapsto> PyInt 1, ''gasPrice'' \<mapsto> PyInt 20000000000,
        ''gas'' \<mapsto> PyInt 21000]"

text \<open>
  The two variants of \<open>UnsignedTransaction\<close> in the specification's data model, as sets
  of field names; the gas limit stands under the key the code gives it, \<open>gas\<close>.
\<close>

definition Legacy_fields :: "string set" where
  "Legacy_fields = {''nonce'', ''gasPrice'', ''gas'', ''to'', ''value'', ''data'', ''chainId''}"

definition FeeMarket_fields :: "string set" where
  "FeeMarket_fields = {''nonce'', ''maxPriorityFeePerGas'', ''maxFeePerGas'', ''gas'', ''to'',
     ''value'', ''data'', ''chainId''}"

section \<open>Seed derivation\<close>

































section \<open>Properties of the transaction builder\<close>

lemma and_then_Inr_iff: "and_then m f = Inr y \<longleftrightarrow> (\<exists>x. m = Inr x \<and> f x = Inr y)"
  by (cases m) (simp_all add: and_then_def)

lemma and_then_Inr: "and_then (Inr x) f = f x"
  by (simp add: and_then_def)

lemma and_then_Inl: "and_then (Inl err) f = Inl err"
  by (simp add: and_then_def)

lemma skeleton_restrict:
  "[''from'' \<mapsto> a, ''to'' \<mapsto> b, ''value'' \<mapsto> c, ''nonce'' \<mapsto> d, ''chainId'' \<mapsto> e,
    ''type'' \<mapsto> f, ''maxFeePerGas'' \<mapsto> g, ''maxPriorityFeePerGas'' \<mapsto> h]
     |` {''to'', ''value'', ''from''}
   = [''to'' \<mapsto> b, ''from'' \<mapsto> a, ''value'' \<mapsto> c]"
  by (rule ext) (simp add: restrict_map_def)

lemma build_legacy:
  assumes "\<not> (max_fee_gwei \<noteq> None \<and> max_priority_fee_gwei \<noteq> None)"
    and "toChecksumAddress w3 from_address = Inr from_checksum"
    and "toChecksumAddress w3 to_address = Inr to_checksum"
    and "(case nonce of None \<Rightarrow> get_transaction_count w3 from_checksum | Some n \<Rightarrow> Inr n)
           = Inr nonce'"
    and "int_of_product value_eth (Decimal_of_int (10 ^ 18)) = Inr wei"
    and "chain_id_or cid w3 = Inr chain"
    and "(case gas_price_gwei of None \<Rightarrow> gas_price w3
          | Some p \<Rightarrow> int_of_product p (Decimal_of_int (10 ^ 9))) = Inr price"
    and "gas_or_estimate gas w3
           [''to'' \<mapsto> PyStr to_checksum, ''from'' \<mapsto> PyStr from_checksum,
            ''value'' \<mapsto> PyInt wei] = Inr g"
  shows "build_eth_transaction w3 from_address to_address value_eth gas gas_price_gwei
           max_priority_fee_gwei max_fee_gwei nonce cid =
         Inr [''from'' \<mapsto> PyStr from_checksum, ''to'' \<mapsto> PyStr to_checksum,
              ''value'' \<mapsto> PyInt wei, ''nonce'' \<mapsto> PyInt nonce',
              ''chainId'' \<mapsto> PyInt chain, ''gasPrice'' \<mapsto> PyInt price,
              ''gas'' \<mapsto> PyInt g]"
  unfolding build_eth_transaction_def
  by (simp only: assms and_then_Inr Let_def if_False)

lemma build_fee_market:
  assumes "max_fee_gwei = Some max_fee" "max_priority_fee_gwei = Some max_priority"
    and "toChecksumAddress w3 from_address = Inr from_checksum"
    and "toChecksumAddress w3 to_address = Inr to_checksum"
    and "(case nonce of None \<Rightarrow> get_transaction_count w3 from_checksum | Some n \<Rightarrow> Inr n)
           = Inr nonce'"
    and "int_of_product value_eth (Decimal_of_int (10 ^ 18)) = Inr wei"
    and "chain_id_or cid w3 = Inr chain"
    and "int_of_product max_fee (Decimal_of_int (10 ^ 9)) = Inr fee"
    and "int_of_product max_priority (Decimal_of_int (10 ^ 9)) = Inr tip"
    and "gas_or_estimate gas w3
           [''to'' \<mapsto> PyStr to_checksum, ''from'' \<mapsto> PyStr from_checksum,
            ''value'' \<mapsto> PyInt wei] = Inr g"
  shows "build_eth_transaction w3 from_address to_address value_eth gas gas_price_gwei
           max_priority_fee_gwei max_fee_gwei nonce cid =
         Inr [''from'' \<mapsto> PyStr from_checksum, ''to'' \<mapsto> PyStr to_checksum,
              ''value'' \<mapsto> PyInt wei, ''nonce'' \<mapsto> PyInt nonce',
              ''chainId'' \<mapsto> PyInt chain, ''type'' \<mapsto> PyStr ''0x2'',
              ''maxFeePerGas'' \<mapsto> PyInt fee, ''maxPriorityFeePerGas'' \<mapsto> PyInt tip,
              ''gas'' \<mapsto> PyInt g]"
  unfolding build_eth_transaction_def
  by (simp only: assms and_then_Inr Let_def option.distinct option.sel simp_thms if_True
      skeleton_restrict)

text \<open>Inversion: what a returned record looks like.\<close>

lemma build_Inr_cases:
  assumes "build_eth_transaction w3 from_address to_address value_eth gas gas_price_gwei
           max_priority_fee_gwei max_fee_gwei nonce cid = Inr tx"
  obtains (fee_market) from_checksum to_checksum nonce' wei chain fee tip g max_fee max_priority
    where "max_fee_gwei = Some max_fee" "max_priority_fee_gwei = Some max_priority"
      "toChecksumAddress w3 from_address = Inr from_checksum"
      "toChecksumAddress w3 to_address = Inr to_checksum"
      "(case nonce of None \<Rightarrow> get_transaction_count w3 from_checksum | Some n \<Rightarrow> Inr n)
           = Inr nonce'"
      "int_of_product value_eth (Decimal_of_int (10 ^ 18)) = Inr wei"
      "chain_id_or cid w3 = Inr chain"
      "int_of_product max_fee (Decimal_of_int (10 ^ 9)) = Inr fee"
      "int_of_product max_priority (Decimal_of_int (10 ^ 9)) = Inr tip"
      "gas_or_estimate gas w3
           [''to'' \<mapsto> PyStr to_checksum, ''from'' \<mapsto> PyStr from_checksum,
            ''value'' \<mapsto> PyInt wei] = Inr g"
      "tx = [''from'' \<mapsto> PyStr from_checksum, ''to'' \<mapsto> PyStr to_checksum,
              ''value'' \<mapsto> PyInt wei, ''nonce'' \<mapsto> PyInt nonce',
              ''chainId'' \<mapsto> PyInt chain, ''type'' \<mapsto> PyStr ''0x2'',
              ''maxFeePerGas'' \<mapsto> PyInt fee, ''maxPriorityFeePerGas'' \<mapsto> PyInt tip,
              ''gas'' \<mapsto> PyInt g]"
  | (legacy) from_checksum to_checksum nonce' wei chain price g
    where "\<not> (max_fee_gwei \<noteq> None \<and> max_priority_fee_gwei \<noteq> None)"
      "toChecksumAddress w3 from_address = Inr from_checksum"
      "toChecksumAddress w3 to_address = Inr to_checksum"
      "(case nonce of None \<Rightarrow> get_transaction_count w3 from_checksum | Some n \<Rightarrow> Inr n)
           = Inr nonce'"
      "int_of_product value_eth (Decimal_of_int (10 ^ 18)) = Inr wei"
      "chain_id_or cid w3 = Inr chain"
      "(case gas_price_gwei of None \<Rightarrow> gas_price w3
          | Some p \<Rightarrow> int_of_product p (Decimal_of_int (10 ^ 9))) = Inr price"
      "gas_or_estimate gas w3
           [''to'' \<mapsto> PyStr to_checksum, ''from'' \<mapsto> PyStr from_checksum,
            ''value'' \<mapsto> PyInt wei] = Inr g"
      "tx = [''from'' \<mapsto> PyStr from_checksum, ''to'' \<mapsto> PyStr to_checksum,
              ''value'' \<mapsto> PyInt wei, ''nonce'' \<mapsto> PyInt nonce',
              ''chainId'' \<mapsto> PyInt chain, ''gasPrice'' \<mapsto> PyInt price,
              ''gas'' \<mapsto> PyInt g]"
proof -
  from assms obtain from_checksum where a1: "toChecksumAddress w3 from_address = Inr from_checksum"
    unfolding build_eth_transaction_def and_then_Inr_iff by blast
  from assms a1 obtain to_checksum where a2: "toChecksumAddress w3 to_address = Inr to_checksum"
    unfolding build_eth_transaction_def by (simp only: and_then_Inr and_then_Inr_iff) blast
  from assms a1 a2 obtain nonce' where a3:
    "(case nonce of None \<Rightarrow> get_transaction_count w3 from_checksum | Some n \<Rightarrow> Inr n) = Inr nonce'"
    unfolding build_eth_transaction_def by (simp only: and_then_Inr and_then_Inr_iff) blast
  from assms a1 a2 a3 obtain wei where a4:
    "int_of_product value_eth (Decimal_of_int (10 ^ 18)) = Inr wei"
    unfolding build_eth_transaction_def by (simp only: and_then_Inr and_then_Inr_iff) blast
  from assms a1 a2 a3 a4 obtain chain where a5: "chain_id_or cid w3 = Inr chain"
    unfolding build_eth_transaction_def by (simp only: and_then_Inr and_then_Inr_iff) blast
  show thesis
  proof (cases "max_fee_gwei \<noteq> None \<and> max_priority_fee_gwei \<noteq> None")
    case True
    then obtain max_fee max_priority where
      m: "max_fee_gwei = Some max_fee" "max_priority_fee_gwei = Some max_priority"
      by blast
    have rest: "and_then (int_of_product max_fee (Decimal_of_int (10 ^ 9))) (\<lambda>fee.
           and_then (int_of_product max_priority (Decimal_of_int (10 ^ 9)))
             (\<lambda>tip.
           and_then (gas_or_estimate gas w3 [''to'' \<mapsto> PyStr to_checksum, ''from'' \<mapsto> PyStr from_checksum,
            ''value'' \<mapsto> PyInt wei])
                (\<lambda>g. Inr ([''from'' \<mapsto> PyStr from_checksum, ''to'' \<mapsto> PyStr to_checksum,
              ''value'' \<mapsto> PyInt wei, ''nonce'' \<mapsto> PyInt nonce',
              ''chainId'' \<mapsto> PyInt chain, ''type'' \<mapsto> PyStr ''0x2'',
              ''maxFeePerGas'' \<mapsto> PyInt fee, ''maxPriorityFeePerGas'' \<mapsto> PyInt tip,
              ''gas'' \<mapsto> PyInt g])))) = Inr tx"
      using assms unfolding build_eth_transaction_def
      by (simp only: a1 a2 a3 a4 a5 m and_then_Inr Let_def option.distinct option.sel simp_thms
          if_True skeleton_restrict)
    then obtain fee where b1: "int_of_product max_fee (Decimal_of_int (10 ^ 9)) = Inr fee"
      unfolding and_then_Inr_iff by blast
    from rest b1 obtain tip where b2: "int_of_product max_priority (Decimal_of_int (10 ^ 9)) = Inr tip"
      by (simp only: and_then_Inr and_then_Inr_iff) blast
    from rest b1 b2 obtain g where b3: "gas_or_estimate gas w3
           [''to'' \<mapsto> PyStr to_checksum, ''from'' \<mapsto> PyStr from_checksum,
            ''value'' \<mapsto> PyInt wei] = Inr g"
      by (simp only: and_then_Inr and_then_Inr_iff) blast
    from rest b1 b2 b3 have "tx = [''from'' \<mapsto> PyStr from_checksum, ''to'' \<mapsto> PyStr to_checksum,
              ''value'' \<mapsto> PyInt wei, ''nonce'' \<mapsto> PyInt nonce',
              ''chainId'' \<mapsto> PyInt chain, ''type'' \<mapsto> PyStr ''0x2'',
              ''maxFeePerGas'' \<mapsto> PyInt fee, ''maxPriorityFeePerGas'' \<mapsto> PyInt tip,
              ''gas'' \<mapsto> PyInt g]"
      by (simp only: and_then_Inr sum.inject)
    then show ?thesis
      using fee_market m a1 a2 a3 a4 a5 b1 b2 b3 by blast
  next
    case False
    have rest: "and_then (case gas_price_gwei of None \<Rightarrow> gas_price w3
                     | Some p \<Rightarrow> int_of_product p (Decimal_of_int (10 ^ 9))) (\<lambda>price.
           and_then (gas_or_estimate gas w3
                          [''to'' \<mapsto> PyStr to_checksum, ''from'' \<mapsto> PyStr from_checksum,
                           ''value'' \<mapsto> PyInt wei])
                (\<lambda>g. Inr ([''from'' \<mapsto> PyStr from_checksum, ''to'' \<mapsto> PyStr to_checksum,
              ''value'' \<mapsto> PyInt wei, ''nonce'' \<mapsto> PyInt nonce',
              ''chainId'' \<mapsto> PyInt chain, ''gasPrice'' \<mapsto> PyInt price,
              ''gas'' \<mapsto> PyInt g]))) = Inr tx"
      using assms unfolding build_eth_transaction_def
      by (simp only: a1 a2 a3 a4 a5 False and_then_Inr Let_def if_False)
    then obtain price where b1: "(case gas_price_gwei of None \<Rightarrow> gas_price w3
          | Some p \<Rightarrow> int_of_product p (Decimal_of_int (10 ^ 9))) = Inr price"
      unfolding and_then_Inr_iff by blast
    from rest b1 obtain g where b3: "gas_or_estimate gas w3
           [''to'' \<mapsto> PyStr to_checksum, ''from'' \<mapsto> PyStr from_checksum,
            ''value'' \<mapsto> PyInt wei] = Inr g"
      by (simp only: and_then_Inr and_then_Inr_iff) blast
    from rest b1 b3 have "tx = [''from'' \<mapsto> PyStr from_checksum, ''to'' \<mapsto> PyStr to_checksum,
              ''value'' \<mapsto> PyInt wei, ''nonce'' \<mapsto> PyInt nonce',
              ''chainId'' \<mapsto> PyInt chain, ''gasPrice'' \<mapsto> PyInt price,
              ''gas'' \<mapsto> PyInt g]"
      by (simp only: and_then_Inr sum.inject)
    then show ?thesis
      using legacy False a1 a2 a3 a4 a5 b1 b3 by blast
  qed
qed


text \<open>The demo calls.\<close>

lemma demo_value:
  "int_of_product (Dec False 15 (- 1)) (Decimal_of_int 1000000000000000000) =
   Inr 1500000000000000000"
  by (simp add: int_of_product_def Decimal_of_int_def Decimal_fix_def ndigits.simps prec_def
      Etop_def Emax_def Etiny_def Emin_def)

lemma demo_gwei:
  "int_of_product (Dec False 25 (- 1)) (Decimal_of_int 1000000000) = Inr 2500000000"
  by (simp add: int_of_product_def Decimal_of_int_def Decimal_fix_def ndigits.simps prec_def
      Etop_def Emax_def Etiny_def Emin_def)

lemma demo_legacy:
  "build_eth_transaction w3_demo ''0xA'' ''0xB'' (Dec False 15 (- 1)) None None mp None None cid =
   Inr [''from'' \<mapsto> PyStr ''0xA'', ''to'' \<mapsto> PyStr ''0xB'',
        ''value'' \<mapsto> PyInt 1500000000000000000, ''nonce'' \<mapsto> PyInt 7,
        ''chainId'' \<mapsto> PyInt (case cid of None \<Rightarrow> 1 | Some n \<Rightarrow> if n = 0 then 1 else n),
        ''gasPrice'' \<mapsto> PyInt 20000000000, ''gas'' \<mapsto> PyInt 21000]"
  by (rule build_legacy)
     (simp_all add: w3_demo_def demo_value chain_id_or_def gas_or_estimate_def
        split: option.splits)

lemma demo_fee_market:
  "build_eth_transaction w3_demo ''0xA'' ''0xB'' (Dec False 15 (- 1)) None gp
     (Some (Dec False 25 (- 1))) (Some (Dec False 25 (- 1))) None None =
   Inr [''from'' \<mapsto> PyStr ''0xA'', ''to'' \<mapsto> PyStr ''0xB'',
        ''value'' \<mapsto> PyInt 1500000000000000000, ''nonce'' \<mapsto> PyInt 7,
        ''chainId'' \<mapsto> PyInt 1, ''type'' \<mapsto> PyStr ''0x2'',
        ''maxFeePerGas'' \<mapsto> PyInt 2500000000, ''maxPriorityFeePerGas'' \<mapsto> PyInt 2500000000,
        ''gas'' \<mapsto> PyInt 21000]"
  by (rule build_fee_market [OF refl refl])
     (simp_all add: w3_demo_def demo_value demo_gwei chain_id_or_def
        gas_or_estimate_def)




lemma demo_legacy_build:
  "build_eth_transaction w3_demo ''0xA'' ''0xB'' (Dec False 15 (- 1)) None None None
      None None None = Inr demo_legacy_tx"
  using demo_legacy [of None None] by (simp add: demo_legacy_tx_def)

lemma dom_demo_legacy_tx:
  "dom demo_legacy_tx = {''gas'', ''gasPrice'', ''chainId'', ''nonce'', ''value'', ''to'', ''from''}"
  by (simp add: demo_legacy_tx_def)

section \<open>The shape of the returned record\<close>

text \<open>
  C7, as stated, has every returned record reflect exactly one of the two variants of the
  data model. The record of the call below has the key \<open>from\<close>, which neither variant
  has, and lacks \<open>data\<close>, which both have.
\<close>

theorem variant_fields_counterexample:
  "build_eth_transaction w3_demo ''0xA'' ''0xB'' (Dec False 15 (- 1)) None None None None None None
     = Inr demo_legacy_tx \<and>
   ''from'' \<in> dom demo_legacy_tx \<and> ''data'' \<notin> dom demo_legacy_tx \<and>
   dom demo_legacy_tx \<noteq> Legacy_fields \<and> dom demo_legacy_tx \<noteq> FeeMarket_fields"
proof -
  have n: "''from'' \<notin> Legacy_fields" "''from'' \<notin> FeeMarket_fields"
    by (simp_all add: Legacy_fields_def FeeMarket_fields_def)
  have m: "''from'' \<in> dom demo_legacy_tx" "''data'' \<notin> dom demo_legacy_tx"
    by (simp_all add: dom_demo_legacy_tx)
  from n m have "dom demo_legacy_tx \<noteq> Legacy_fields" "dom demo_legacy_tx \<noteq> FeeMarket_fields"
    by blast+
  with m demo_legacy_build show ?thesis by blast
qed


text \<open>
  C7 (amended). Every record the builder returns has exactly the keys \<open>from\<close>, \<open>to\<close>,
  \<open>value\<close>, \<open>nonce\<close>, \<open>chainId\<close>, \<open>gas\<close> and either \<open>gasPrice\<close> alone (legacy)
  or \<open>type\<close>, \<open>maxFeePerGas\<close> and \<open>maxPriorityFeePerGas\<close> (fee market, chosen exactly
  when both fee-market parameters were supplied); it has no \<open>data\<close> key, and it never
  holds \<open>gasPrice\<close> together with a fee-market field.
\<close>

theorem variant_fields:
  assumes "build_eth_transaction w3 from_address to_address value_eth gas gas_price_gwei
             max_priority_fee_gwei max_fee_gwei nonce cid = Inr tx"
  shows "dom tx =
           (if max_fee_gwei \<noteq> None \<and> max_priority_fee_gwei \<noteq> None
            then {''gas'', ''maxPriorityFeePerGas'', ''maxFeePerGas'', ''type'', ''chainId'',
                  ''nonce'', ''value'', ''to'', ''from''}
            else {''gas'', ''gasPrice'', ''chainId'', ''nonce'', ''value'', ''to'', ''from''}) \<and>
         ''data'' \<notin> dom tx \<and>
         (''gasPrice'' \<in> dom tx) \<noteq>
           (''type'' \<in> dom tx \<or> ''maxFeePerGas'' \<in> dom tx \<or> ''maxPriorityFeePerGas'' \<in> dom tx)"
  using assms
proof (cases rule: build_Inr_cases)
  case fee_market
  have d: "dom tx = {''gas'', ''maxPriorityFeePerGas'', ''maxFeePerGas'', ''type'', ''chainId'',
                  ''nonce'', ''value'', ''to'', ''from''}"
    by (simp add: fee_market(11))
  have m: "tx ''data'' = None" "tx ''gasPrice'' = None" "tx ''type'' \<noteq> None"
    by (simp_all add: fee_market(11))
  from m have "''data'' \<notin> dom tx" "''gasPrice'' \<notin> dom tx" "''type'' \<in> dom tx"
    by (simp_all add: dom_def)
  with d show ?thesis by (simp add: fee_market(1,2))
next
  case legacy
  have d: "dom tx = {''gas'', ''gasPrice'', ''chainId'', ''nonce'', ''value'', ''to'', ''from''}"
    by (simp add: legacy(9))
  have m: "tx ''data'' = None" "tx ''gasPrice'' \<noteq> None" "tx ''type'' = None"
    "tx ''maxFeePerGas'' = None" "tx ''maxPriorityFeePerGas'' = None"
    by (simp_all add: legacy(9))
  from m have "''data'' \<notin> dom tx" "''gasPrice'' \<in> dom tx" "''type'' \<notin> dom tx"
    "''maxFeePerGas'' \<notin> dom tx" "''maxPriorityFeePerGas'' \<notin> dom tx"
    by (simp_all add: dom_def)
  with d show ?thesis by (simp only: if_not_P [OF legacy(1)]) simp
qed

theorem variant_fields_witness:
  "dom demo_legacy_tx = {''gas'', ''gasPrice'', ''chainId'', ''nonce'', ''value'', ''to'', ''from''} \<and>
   ''data'' \<notin> dom demo_legacy_tx \<and>
   (''gasPrice'' \<in> dom demo_legacy_tx) \<noteq>
     (''type'' \<in> dom demo_legacy_tx \<or> ''maxFeePerGas'' \<in> dom demo_legacy_tx \<or>
      ''maxPriorityFeePerGas'' \<in> dom demo_legacy_tx)"
  using variant_fields [OF demo_legacy_build] by simp

lemma build_one_sided:
  assumes "(max_fee_gwei = None) \<noteq> (max_priority_fee_gwei = None)"
  shows "build_eth_transaction w3 from_address to_address value_eth gas gas_price_gwei
           max_priority_fee_gwei max_fee_gwei nonce cid =
         build_eth_transaction w3 from_address to_address value_eth gas gas_price_gwei
           None None nonce cid"
proof -
  from assms have "\<not> (max_fee_gwei \<noteq> None \<and> max_priority_fee_gwei \<noteq> None)" by blast
  then show ?thesis
    unfolding build_eth_transaction_def by (simp only: if_False simp_thms)
qed

lemma chain_id_or_zero: "chain_id_or (Some 0) w3 = chain_id_or None w3"
  by (simp add: chain_id_or_def)

lemma build_chain_zero:
  "build_eth_transaction w3 from_address to_address value_eth gas gas_price_gwei
     max_priority_fee_gwei max_fee_gwei nonce (Some 0) =
   build_eth_transaction w3 from_address to_address value_eth gas gas_price_gwei
     max_priority_fee_gwei max_fee_gwei nonce None"
  unfolding build_eth_transaction_def by (simp only: chain_id_or_zero)

lemma build_chainId:
  assumes "build_eth_transaction w3 from_address to_address value_eth gas gas_price_gwei
             max_priority_fee_gwei max_fee_gwei nonce cid = Inr tx"
  shows "\<exists>chain. chain_id_or cid w3 = Inr chain \<and> tx ''chainId'' = Some (PyInt chain)"
  using assms
proof (cases rule: build_Inr_cases)
  case fee_market
  then show ?thesis by simp
next
  case legacy
  then show ?thesis by simp
qed


section \<open>A lone fee-market parameter\<close>

text \<open>
  C8. When exactly one of \<open>max_fee_gwei\<close> and \<open>max_priority_fee_gwei\<close> is supplied, the
  builder raises nothing on that account: the lone parameter is dropped, so the outcome is
  that of the same call without it, and when the node answers and the amounts convert
  the legacy record is returned, its \<open>gasPrice\<close> being \<open>gas_price_gwei\<close> in wei when
  given and the node's gas price otherwise.
\<close>

theorem one_fee_parameter_discarded:
  assumes "(max_fee_gwei = None) \<noteq> (max_priority_fee_gwei = None)"
    and "toChecksumAddress w3 from_address = Inr from_checksum"
    and "toChecksumAddress w3 to_address = Inr to_checksum"
    and "(case nonce of None \<Rightarrow> get_transaction_count w3 from_checksum | Some n \<Rightarrow> Inr n)
           = Inr nonce'"
    and "int_of_product value_eth (Decimal_of_int (10 ^ 18)) = Inr wei"
    and "chain_id_or cid w3 = Inr chain"
    and "(case gas_price_gwei of None \<Rightarrow> gas_price w3
          | Some p \<Rightarrow> int_of_product p (Decimal_of_int (10 ^ 9))) = Inr price"
    and "gas_or_estimate gas w3
           [''to'' \<mapsto> PyStr to_checksum, ''from'' \<mapsto> PyStr from_checksum,
            ''value'' \<mapsto> PyInt wei] = Inr g"
  shows "build_eth_transaction w3 from_address to_address value_eth gas gas_price_gwei
           max_priority_fee_gwei max_fee_gwei nonce cid =
         Inr [''from'' \<mapsto> PyStr from_checksum, ''to'' \<mapsto> PyStr to_checksum,
              ''value'' \<mapsto> PyInt wei, ''nonce'' \<mapsto> PyInt nonce',
              ''chainId'' \<mapsto> PyInt chain, ''gasPrice'' \<mapsto> PyInt price,
              ''gas'' \<mapsto> PyInt g] \<and>
         build_eth_transaction w3 from_address to_address value_eth gas gas_price_gwei
           max_priority_fee_gwei max_fee_gwei nonce cid =
         build_eth_transaction w3 from_address to_address value_eth gas gas_price_gwei
           None None nonce cid"
proof
  from assms(1) have "\<not> (max_fee_gwei \<noteq> None \<and> max_priority_fee_gwei \<noteq> None)" by blast
  then show "build_eth_transaction w3 from_address to_address value_eth gas gas_price_gwei
           max_priority_fee_gwei max_fee_gwei nonce cid =
         Inr [''from'' \<mapsto> PyStr from_checksum, ''to'' \<mapsto> PyStr to_checksum,
              ''value'' \<mapsto> PyInt wei, ''nonce'' \<mapsto> PyInt nonce',
              ''chainId'' \<mapsto> PyInt chain, ''gasPrice'' \<mapsto> PyInt price,
              ''gas'' \<mapsto> PyInt g]"
    using assms(2-) by (rule build_legacy)
next
  show "build_eth_transaction w3 from_address to_address value_eth gas gas_price_gwei
           max_priority_fee_gwei max_fee_gwei nonce cid =
         build_eth_transaction w3 from_address to_address value_eth gas gas_price_gwei
           None None nonce cid"
    using assms(1) by (rule build_one_sided)
qed

theorem one_fee_parameter_discarded_witness:
  "build_eth_transaction w3_demo ''0xA'' ''0xB'' (Dec False 15 (- 1)) None
     (Some (Dec False 25 (- 1))) None (Some (Dec False 3 0)) None None =
   Inr [''from'' \<mapsto> PyStr ''0xA'', ''to'' \<mapsto> PyStr ''0xB'',
        ''value'' \<mapsto> PyInt 1500000000000000000, ''nonce'' \<mapsto> PyInt 7,
        ''chainId'' \<mapsto> PyInt 1, ''gasPrice'' \<mapsto> PyInt 2500000000,
        ''gas'' \<mapsto> PyInt 21000] \<and>
   build_eth_transaction w3_demo ''0xA'' ''0xB'' (Dec False 15 (- 1)) None
     (Some (Dec False 25 (- 1))) None (Some (Dec False 3 0)) None None =
   build_eth_transaction w3_demo ''0xA'' ''0xB'' (Dec False 15 (- 1)) None
     (Some (Dec False 25 (- 1))) None None None None"
proof -
  have one: "(Some (Dec False 3 0) = None) \<noteq> ((None :: Decimal option) = None)" by simp
  have a: "toChecksumAddress w3_demo ''0xA'' = Inr ''0xA''"
    and b: "toChecksumAddress w3_demo ''0xB'' = Inr ''0xB''"
    and n: "(case None of None \<Rightarrow> get_transaction_count w3_demo ''0xA'' | Some n \<Rightarrow> Inr n)
              = Inr 7"
    and c: "chain_id_or None w3_demo = Inr 1"
    and g: "gas_or_estimate None w3_demo
              [''to'' \<mapsto> PyStr ''0xB'', ''from'' \<mapsto> PyStr ''0xA'',
               ''value'' \<mapsto> PyInt 1500000000000000000] = Inr 21000"
    by (simp_all add: w3_demo_def chain_id_or_def gas_or_estimate_def)
  have v: "int_of_product (Dec False 15 (- 1)) (Decimal_of_int (10 ^ 18)) =
           Inr 1500000000000000000"
    by (simp add: demo_value)
  have p: "(case Some (Dec False 25 (- 1)) of None \<Rightarrow> gas_price w3_demo
            | Some p \<Rightarrow> int_of_product p (Decimal_of_int (10 ^ 9))) = Inr 2500000000"
    by (simp add: demo_gwei)
  show ?thesis
    by (rule one_fee_parameter_discarded [OF one a b n v c p g])
qed

section \<open>A chain id of zero\<close>

text \<open>
  C9. A call with \<open>chain_id = 0\<close> behaves as the call without a chain id: the record's
  \<open>chainId\<close> is the one the node reports. Every other supplied chain id is used as
  given.
\<close>

theorem zero_chain_id_replaced:
  "build_eth_transaction w3 from_address to_address value_eth gas gas_price_gwei
     max_priority_fee_gwei max_fee_gwei nonce (Some 0) =
   build_eth_transaction w3 from_address to_address value_eth gas gas_price_gwei
     max_priority_fee_gwei max_fee_gwei nonce None \<and>
   (\<forall>tx. build_eth_transaction w3 from_address to_address value_eth gas gas_price_gwei
          max_priority_fee_gwei max_fee_gwei nonce (Some 0) = Inr tx \<longrightarrow>
        (\<exists>chain. chain_id w3 = Inr chain \<and> tx ''chainId'' = Some (PyInt chain))) \<and>
   (\<forall>n tx. n \<noteq> 0 \<longrightarrow>
        build_eth_transaction w3 from_address to_address value_eth gas gas_price_gwei
          max_priority_fee_gwei max_fee_gwei nonce (Some n) = Inr tx \<longrightarrow>
        tx ''chainId'' = Some (PyInt n))"
proof (intro conjI allI impI)
  show "build_eth_transaction w3 from_address to_address value_eth gas gas_price_gwei
     max_priority_fee_gwei max_fee_gwei nonce (Some 0) =
   build_eth_transaction w3 from_address to_address value_eth gas gas_price_gwei
     max_priority_fee_gwei max_fee_gwei nonce None"
    by (rule build_chain_zero)
next
  fix tx
  assume "build_eth_transaction w3 from_address to_address value_eth gas gas_price_gwei
          max_priority_fee_gwei max_fee_gwei nonce (Some 0) = Inr tx"
  from build_chainId [OF this]
  show "\<exists>chain. chain_id w3 = Inr chain \<and> tx ''chainId'' = Some (PyInt chain)"
    by (simp add: chain_id_or_def)
next
  fix n :: int and tx
  assume "n \<noteq> 0"
    and "build_eth_transaction w3 from_address to_address value_eth gas gas_price_gwei
          max_priority_fee_gwei max_fee_gwei nonce (Some n) = Inr tx"
  from build_chainId [OF this(2)] \<open>n \<noteq> 0\<close>
  show "tx ''chainId'' = Some (PyInt n)"
    by (simp add: chain_id_or_def)
qed


theorem zero_chain_id_replaced_witness:
  "build_eth_transaction w3_demo ''0xA'' ''0xB'' (Dec False 15 (- 1)) None None None None None
     (Some 0) = Inr demo_legacy_tx \<and>
   chain_id w3_demo = Inr 1 \<and> demo_legacy_tx ''chainId'' = Some (PyInt 1) \<and>
   build_eth_transaction w3_demo ''0xA'' ''0xB'' (Dec False 15 (- 1)) None None None None None
     (Some 5) =
   Inr [''from'' \<mapsto> PyStr ''0xA'', ''to'' \<mapsto> PyStr ''0xB'',
        ''value'' \<mapsto> PyInt 1500000000000000000, ''nonce'' \<mapsto> PyInt 7,
        ''chainId'' \<mapsto> PyInt 5, ''gasPrice'' \<mapsto> PyInt 20000000000,
        ''gas'' \<mapsto> PyInt 21000] \<and>
   [''from'' \<mapsto> PyStr ''0xA'', ''to'' \<mapsto> PyStr ''0xB'',
    ''value'' \<mapsto> PyInt 1500000000000000000, ''nonce'' \<mapsto> PyInt 7,
    ''chainId'' \<mapsto> PyInt 5, ''gasPrice'' \<mapsto> PyInt 20000000000,
    ''gas'' \<mapsto> PyInt 21000] ''chainId'' = Some (PyInt 5)"
proof -
  note inst = zero_chain_id_replaced [of w3_demo "''0xA''" "''0xB''" "Dec False 15 (- 1)" None
      None None None None]
  have b0: "build_eth_transaction w3_demo ''0xA'' ''0xB'' (Dec False 15 (- 1)) None None None
      None None (Some 0) = Inr demo_legacy_tx"
    using inst [THEN conjunct1] demo_legacy_build by simp
  from inst [THEN conjunct2, THEN conjunct1, THEN spec, THEN mp, OF b0]
  have c0: "chain_id w3_demo = Inr 1 \<and> demo_legacy_tx ''chainId'' = Some (PyInt 1)"
    by (simp add: w3_demo_def demo_legacy_tx_def)
  have b5: "build_eth_transaction w3_demo ''0xA'' ''0xB'' (Dec False 15 (- 1)) None None None
      None None (Some 5) =
    Inr [''from'' \<mapsto> PyStr ''0xA'', ''to'' \<mapsto> PyStr ''0xB'',
        ''value'' \<mapsto> PyInt 1500000000000000000, ''nonce'' \<mapsto> PyInt 7,
        ''chainId'' \<mapsto> PyInt 5, ''gasPrice'' \<mapsto> PyInt 20000000000,
        ''gas'' \<mapsto> PyInt 21000]"
    using demo_legacy [of None "Some 5"] by simp
  have five: "(5 :: int) \<noteq> 0" by simp
  from inst [THEN conjunct2, THEN conjunct2, THEN spec, THEN spec, THEN mp, THEN mp, OF five b5]
  have c5: "[''from'' \<mapsto> PyStr ''0xA'', ''to'' \<mapsto> PyStr ''0xB'',
    ''value'' \<mapsto> PyInt 1500000000000000000, ''nonce'' \<mapsto> PyInt 7,
    ''chainId'' \<mapsto> PyInt 5, ''gasPrice'' \<mapsto> PyInt 20000000000,
    ''gas'' \<mapsto> PyInt 21000] ''chainId'' = Some (PyInt 5)" .
  from b0 c0 b5 c5 show ?thesis by (simp only: simp_thms)
qed

section \<open>Unit conversion\<close>

lemma ndigits_less_10: "n < 10 \<Longrightarrow> ndigits n = 1"
  by (simp add: ndigits.simps)



lemma ndigits_upper: "n < 10 ^ ndigits n"
proof (induction n rule: ndigits.induct)
  case (1 n)
  show ?case
  proof (cases "n < 10")
    case True
    then show ?thesis by (simp add: ndigits_less_10)
  next
    case False
    with 1 have "n div 10 < 10 ^ ndigits (n div 10)" by simp
    then have "n < 10 * 10 ^ ndigits (n div 10)" by simp
    moreover from False have "ndigits n = Suc (ndigits (n div 10))"
      by (subst ndigits.simps) simp
    ultimately show ?thesis by simp
  qed
qed
















section \<open>The seed\<close>










end
